theory Spec2Isabelle
  imports Complex_Main "HOL-Library.Char_ord" "HOL-Library.List_Lexorder"
begin

section \<open>Conventions\<close>

text \<open>
  The program is Python with NumPy. A Python \<^verbatim>\<open>float\<close> is modelled as a \<^typ>\<open>real\<close>:
  rounding is not modelled, and every place where the float arithmetic of the source
  leaves the real numbers (nan, inf) or raises is an explicit branch of the model.
  A Python \<^verbatim>\<open>int\<close> is an \<^typ>\<open>int\<close>, a \<^verbatim>\<open>str\<close> a \<^typ>\<open>string\<close>, a dict a map (or an
  association list where the order of the keys is used), a raised exception the left
  injection of a sum.
\<close>

datatype failure =
    FileNotFoundError
  | ValueError
  | IndexError
  | ZeroDivisionError
  | NonFinite  \<comment> \<open>no exception: a float of the source is nan or inf here, outside the reals\<close>
  | RankDeficient  \<comment> \<open>no exception: a least-squares fit without a unique solution\<close>

section \<open>engine.py: enums\<close>

datatype Ethnicity = EAST_ASIAN | EUROPEAN | AFRICAN | LATINO | CENTRAL_SOUTH_ASIAN

fun ethnicity_value :: "Ethnicity \<Rightarrow> string" where
  "ethnicity_value EAST_ASIAN = ''East Asian''"
| "ethnicity_value EUROPEAN = ''European''"
| "ethnicity_value AFRICAN = ''African''"
| "ethnicity_value LATINO = ''Latino''"
| "ethnicity_value CENTRAL_SOUTH_ASIAN = ''Central/South Asian''"

datatype MetabolizerStatus = POOR | INTERMEDIATE | NORMAL | ULTRA_RAPID

section \<open>pbpk\_model.py: parameter records\<close>

record DrugParameters =
  drug_name :: string
  log_p :: real
  f_u :: real
  v_d :: real
  k_a :: real
  drug_f :: real
  mw :: real

record PhysiologicalParameters =
  body_weight :: real
  v_plasma :: real
  v_liver :: real
  q_liver :: real
  cl_int :: real
  cl_renal :: real
  activity_score :: real


section \<open>engine.py: metabolizer classification\<close>

text \<open>\<^verbatim>\<open>PopulationGenerator._classify_metabolizer\<close>: an if/elif chain on the score.\<close>

definition classify_metabolizer :: "real \<Rightarrow> MetabolizerStatus" where
  "classify_metabolizer score =
     (if score \<le> 0.25 then POOR
      else if score \<le> 1.0 then INTERMEDIATE
      else if score \<le> 2.0 then NORMAL
      else ULTRA_RAPID)"

section \<open>engine.py: physiological parameters\<close>

text \<open>
  \<^verbatim>\<open>PopulationGenerator._generate_physiological_params\<close>. The value returned by
  \<^verbatim>\<open>np.random.lognormal(0, 0.3)\<close> is the argument \<open>individual_variability\<close>; the
  attribute \<^verbatim>\<open>self.base_cl_int\<close> is the argument \<open>base_cl_int\<close>. The argument
  \<^verbatim>\<open>gender\<close> is not used by the source. \<^verbatim>\<open>weight_ratio ** 0.75\<close> is \<open>powr\<close>, which
  agrees with the source for the weights the generator passes (at least 40).
\<close>

definition generate_physiological_params ::
  "real \<Rightarrow> real \<Rightarrow> int \<Rightarrow> string \<Rightarrow> real \<Rightarrow> real \<Rightarrow> PhysiologicalParameters" where
  "generate_physiological_params base_cl_int weight age gender score individual_variability =
     (let weight_ratio = weight / 70.0;
          v_plasma' = 0.047 * weight;
          v_liver' = 0.025 * weight;
          age_factor = 1.0 - 0.1 * max 0 ((real_of_int age - 60) / 20);
          q_liver' = 90 * weight_ratio powr 0.75 * age_factor;
          cl_int' = base_cl_int * score * individual_variability;
          cl_renal' = 0.0
      in \<lparr> body_weight = weight, v_plasma = v_plasma', v_liver = v_liver',
           q_liver = q_liver', cl_int = cl_int', cl_renal = cl_renal',
           activity_score = score \<rparr>)"

section \<open>pbpk\_model.py: the parameters of the ODE\<close>

text \<open>\<^verbatim>\<open>PBPKModel._estimate_kp_liver\<close>.\<close>

definition estimate_kp_liver :: "DrugParameters \<Rightarrow> real" where
  "estimate_kp_liver drug =
     (let kp = 0.5 + 0.5 * 10 powr (0.7 * log_p drug - 0.3) * f_u drug
      in max 1.0 (min kp 50.0))"

text \<open>The dict \<^verbatim>\<open>params\<close> that \<^verbatim>\<open>PBPKModel.solve\<close> builds for the ODE system.\<close>

record ode_params =
  p_k_a :: real
  p_F :: real
  p_V_c :: real
  p_V_liver :: real
  p_Q_liver :: real
  p_CL_int :: real
  p_CL_renal :: real
  p_f_u :: real
  p_K_p :: real

definition effective_cl_int :: "PhysiologicalParameters \<Rightarrow> real" where
  "effective_cl_int phys = cl_int phys * activity_score phys"

definition v_central :: "DrugParameters \<Rightarrow> PhysiologicalParameters \<Rightarrow> real" where
  "v_central drug phys = v_d drug * body_weight phys"

definition solve_params :: "DrugParameters \<Rightarrow> PhysiologicalParameters \<Rightarrow> ode_params" where
  "solve_params drug phys =
     \<lparr> p_k_a = k_a drug, p_F = drug_f drug, p_V_c = v_central drug phys,
       p_V_liver = v_liver phys, p_Q_liver = q_liver phys,
       p_CL_int = effective_cl_int phys, p_CL_renal = cl_renal phys,
       p_f_u = f_u drug, p_K_p = estimate_kp_liver drug \<rparr>"

section \<open>engine.py: the data tables\<close>

text \<open>
  The two JSON files hold a dict under one top-level key. The allele-frequency table maps
  an ethnicity name to a gene to the frequencies of that gene's alleles; the alleles of a
  gene are kept as an association list in the key order of the dict, since sampling walks
  the keys in order. The activity-score table maps a gene to an allele to a score.
\<close>

type_synonym allele_freqs = "(string \<times> real) list"
type_synonym allele_freq_data = "string \<rightharpoonup> (string \<rightharpoonup> allele_freqs)"
type_synonym activity_score_data = "string \<rightharpoonup> (string \<rightharpoonup> real)"

text \<open>
  The data directory: for each file \<open>None\<close> when the file does not exist, otherwise the
  parsed document, which is \<open>None\<close> when the top-level key is absent
  (\<^verbatim>\<open>data.get("allele_frequencies", {})\<close>).
\<close>

record data_dir =
  allele_frequencies_json :: "allele_freq_data option option"
  activity_scores_json :: "activity_score_data option option"

definition load_allele_frequencies :: "data_dir \<Rightarrow> failure + allele_freq_data" where
  "load_allele_frequencies dir =
     (case allele_frequencies_json dir of
        None \<Rightarrow> Inl FileNotFoundError
      | Some doc \<Rightarrow> Inr (case doc of None \<Rightarrow> Map.empty | Some tbl \<Rightarrow> tbl))"

definition load_activity_scores :: "data_dir \<Rightarrow> failure + activity_score_data" where
  "load_activity_scores dir =
     (case activity_scores_json dir of
        None \<Rightarrow> Inl FileNotFoundError
      | Some doc \<Rightarrow> Inr (case doc of None \<Rightarrow> Map.empty | Some tbl \<Rightarrow> tbl))"

text \<open>
  The module-level \<^verbatim>\<open>try: ... except FileNotFoundError as e:\<close> that runs when engine.py is
  imported. The state it leaves: the two module globals, whether the warning was printed,
  and which loaders were called, in order. Only \<^verbatim>\<open>FileNotFoundError\<close> is caught.
\<close>

record module_state =
  ALLELE_FREQ_DATA :: allele_freq_data
  ACTIVITY_SCORE_DATA :: activity_score_data
  warning_printed :: bool
  loader_calls :: "string list"

definition module_import :: "data_dir \<Rightarrow> failure + module_state" where
  "module_import dir =
     (case load_allele_frequencies dir of
        Inl e \<Rightarrow>
          (if e = FileNotFoundError
           then Inr \<lparr> ALLELE_FREQ_DATA = Map.empty, ACTIVITY_SCORE_DATA = Map.empty,
                      warning_printed = True,
                      loader_calls = [''load_allele_frequencies''] \<rparr>
           else Inl e)
      | Inr freqs \<Rightarrow>
          (case load_activity_scores dir of
             Inl e \<Rightarrow>
               (if e = FileNotFoundError
                then Inr \<lparr> ALLELE_FREQ_DATA = Map.empty, ACTIVITY_SCORE_DATA = Map.empty,
                           warning_printed = True,
                           loader_calls = [''load_allele_frequencies'', ''load_activity_scores''] \<rparr>
                else Inl e)
           | Inr scores \<Rightarrow>
               Inr \<lparr> ALLELE_FREQ_DATA = freqs, ACTIVITY_SCORE_DATA = scores,
                      warning_printed = False,
                      loader_calls = [''load_allele_frequencies'', ''load_activity_scores''] \<rparr>))"

text \<open>\<^verbatim>\<open>get_allele_frequencies\<close>, with the module global as an argument.\<close>

definition get_allele_frequencies :: "allele_freq_data \<Rightarrow> Ethnicity \<Rightarrow> string \<Rightarrow> allele_freqs" where
  "get_allele_frequencies freq_data ethnicity gene =
     (let eth_name = ethnicity_value ethnicity;
          eth_name = (if freq_data eth_name = None then ''East Asian'' else eth_name)
      in case (case freq_data eth_name of None \<Rightarrow> Map.empty | Some genes \<Rightarrow> genes) gene of
           None \<Rightarrow> [(''*1'', 1.0)]
         | Some freqs \<Rightarrow> freqs)"

text \<open>\<^verbatim>\<open>get_activity_score\<close>, with the module global as an argument.\<close>

definition get_activity_score :: "activity_score_data \<Rightarrow> string \<Rightarrow> string \<Rightarrow> real" where
  "get_activity_score score_data gene allele =
     (case score_data gene of
        None \<Rightarrow> 1.0
      | Some alleles \<Rightarrow> (case alleles allele of None \<Rightarrow> 1.0 | Some s \<Rightarrow> s))"

text \<open>\<^verbatim>\<open>PopulationGenerator._calculate_activity_score\<close>.\<close>

definition calculate_activity_score ::
  "activity_score_data \<Rightarrow> string \<Rightarrow> string \<times> string \<Rightarrow> real" where
  "calculate_activity_score score_data gene genotype =
     (let score1 = get_activity_score score_data gene (fst genotype);
          score2 = get_activity_score score_data gene (snd genotype)
      in score1 + score2)"

text \<open>
  \<^verbatim>\<open>np.sqrt\<close>: nan (with a RuntimeWarning) below zero, where \<^const>\<open>sqrt\<close> of HOL is
  the negated root of the absolute value.
\<close>

definition np_sqrt :: "real \<Rightarrow> failure + real" where
  "np_sqrt x = (if x < 0 then Inl NonFinite else Inr (sqrt x))"

section \<open>engine.py: random sampling\<close>

text \<open>
  The random generator is an input of the model: each call of a \<^verbatim>\<open>np.random\<close> function
  takes the raw variate that the generator produced for it (a uniform \<open>u\<close> from
  \<^verbatim>\<open>random_sample\<close>, a standard normal \<open>z\<close>, a natural number \<open>r\<close>), and the model computes
  the returned value from it as NumPy does.
\<close>

fun cumsum :: "real \<Rightarrow> real list \<Rightarrow> real list" where
  "cumsum acc [] = []"
| "cumsum acc (x # xs) = (acc + x) # cumsum (acc + x) xs"

text \<open>
  \<^verbatim>\<open>np.random.choice(a, p=p)\<close> for one sample: the checks of the arguments (each a
  \<^verbatim>\<open>ValueError\<close>; the tolerance is the square root of the float64 epsilon, \<open>2 ^ -26\<close>), then
  the normalised cumulative sums, and the index found by
  \<^verbatim>\<open>cdf.searchsorted(u, side='right')\<close>: the number of entries of the cdf that are at
  most \<open>u\<close>.
\<close>

definition np_random_choice :: "'a list \<Rightarrow> real list \<Rightarrow> real \<Rightarrow> failure + 'a" where
  "np_random_choice a p u =
     (if a = [] then Inl ValueError
      else if length p \<noteq> length a then Inl ValueError
      else if list_ex (\<lambda>x. x < 0) p then Inl ValueError
      else if \<bar>sum_list p - 1\<bar> > 1 / 2 ^ 26 then Inl ValueError
      else
        (let cdf = map (\<lambda>c. c / last (cumsum 0 p)) (cumsum 0 p);
             idx = length (filter (\<lambda>c. c \<le> u) cdf)
         in if idx < length a then Inr (a ! idx) else Inl IndexError))"

text \<open>
  \<^verbatim>\<open>np.random.randint(low, high)\<close>: a \<^verbatim>\<open>ValueError\<close> when the range is empty, otherwise
  a value of \<open>[low, high)\<close>.
\<close>

definition np_random_randint :: "int \<Rightarrow> int \<Rightarrow> nat \<Rightarrow> failure + int" where
  "np_random_randint low high r =
     (if low \<ge> high then Inl ValueError
      else Inr (low + int (r mod nat (high - low))))"

text \<open>
  \<^verbatim>\<open>np.random.normal(loc, scale)\<close>: a \<^verbatim>\<open>ValueError\<close> for a negative scale, otherwise
  \<open>loc + scale * z\<close>.
\<close>

definition np_random_normal :: "real \<Rightarrow> real \<Rightarrow> real \<Rightarrow> failure + real" where
  "np_random_normal loc scale z =
     (if scale < 0 then Inl ValueError else Inr (loc + scale * z))"

section \<open>engine.py: PopulationGenerator\<close>

record PopulationGenerator =
  n_subjects :: int
  ethnicity_distribution :: "(Ethnicity \<times> real) list"
  age_range :: "int \<times> int"
  gender_ratio :: real
  weight_mean :: real
  weight_sd :: real
  base_cl_int :: real

text \<open>
  \<^verbatim>\<open>PopulationGenerator.__init__\<close> with its default arguments; the dict of the ethnicity
  distribution is an association list in key order. The seed is not an argument: the
  variates are.
\<close>

definition default_ethnicity_distribution :: "(Ethnicity \<times> real) list" where
  "default_ethnicity_distribution = [(EAST_ASIAN, 0.34), (EUROPEAN, 0.33), (AFRICAN, 0.33)]"

definition PopulationGenerator_init ::
  "int \<Rightarrow> (Ethnicity \<times> real) list option \<Rightarrow> int \<times> int \<Rightarrow> real \<Rightarrow> real \<Rightarrow> real \<Rightarrow> real
     \<Rightarrow> PopulationGenerator" where
  "PopulationGenerator_init n distribution ages ratio w_mean w_sd base =
     \<lparr> n_subjects = n,
       ethnicity_distribution =
         (case distribution of None \<Rightarrow> default_ethnicity_distribution | Some d \<Rightarrow> d),
       age_range = ages, gender_ratio = ratio, weight_mean = w_mean, weight_sd = w_sd,
       base_cl_int = base \<rparr>"

text \<open>\<^verbatim>\<open>PopulationGenerator._sample_ethnicity\<close>.\<close>

definition sample_ethnicity :: "PopulationGenerator \<Rightarrow> real \<Rightarrow> failure + Ethnicity" where
  "sample_ethnicity gen u =
     (let ethnicities = map fst (ethnicity_distribution gen);
          probs = map snd (ethnicity_distribution gen)
      in np_random_choice ethnicities probs u)"

text \<open>
  \<^verbatim>\<open>PopulationGenerator._sample_anthropometrics\<close>, returning (weight, height, bmi).
  Python's \<^verbatim>\<open>max(40, min(weight, 150))\<close> is \<open>max 40 (min weight 150)\<close>.
\<close>

definition sample_anthropometrics ::
  "PopulationGenerator \<Rightarrow> string \<Rightarrow> int \<Rightarrow> real \<Rightarrow> real \<Rightarrow> failure + real \<times> real \<times> real" where
  "sample_anthropometrics gen gnd a z_w z_h =
     (let weight_adj = (if gnd = ''M'' then 1.1 else 0.9);
          height_mean = (if gnd = ''M'' then 175 else 162);
          height_sd = (if gnd = ''M'' then 7 else 6);
          age_factor = 1.0 + 0.005 * real_of_int (max 0 (a - 40))
      in case np_random_normal (weight_mean gen * weight_adj * age_factor) (weight_sd gen) z_w of
           Inl e \<Rightarrow> Inl e
         | Inr w0 \<Rightarrow>
             (let w = max 40 (min w0 150) in
              case np_random_normal height_mean height_sd z_h of
                Inl e \<Rightarrow> Inl e
              | Inr h0 \<Rightarrow>
                  (let h = max 140 (min h0 200);
                       b = w / (h / 100)\<^sup>2
                   in Inr (w, h, b))))"

text \<open>
  \<^verbatim>\<open>PopulationGenerator._sample_genotype\<close>. \<^verbatim>\<open>sorted\<close> on two strings keeps their order
  unless the second is smaller; Python compares strings by code points, as the
  lexicographic order on \<^typ>\<open>string\<close> does.
\<close>

definition sample_genotype ::
  "allele_freq_data \<Rightarrow> string \<Rightarrow> Ethnicity \<Rightarrow> real \<Rightarrow> real \<Rightarrow> failure + string \<times> string" where
  "sample_genotype freq_data gene ethnicity u1 u2 =
     (let allele_freqs = get_allele_frequencies freq_data ethnicity gene;
          alleles = map fst allele_freqs;
          probs = map snd allele_freqs
      in case np_random_choice alleles probs u1 of
           Inl e \<Rightarrow> Inl e
         | Inr allele1 \<Rightarrow>
             (case np_random_choice alleles probs u2 of
                Inl e \<Rightarrow> Inl e
              | Inr allele2 \<Rightarrow>
                  Inr (if allele2 < allele1 then (allele2, allele1) else (allele1, allele2))))"

text \<open>The variates one individual consumes, in the order of the source.\<close>

record variates =
  u_ethnicity :: real
  u_gender :: real
  r_age :: nat
  z_weight :: real
  z_height :: real
  u_cyp2c19_1 :: real
  u_cyp2c19_2 :: real
  u_cyp3a4_1 :: real
  u_cyp3a4_2 :: real
  z_variability :: real

record IndividualCharacteristics =
  subject_id :: int
  age :: int
  gender :: string
  ethnicity :: Ethnicity
  weight :: real
  height :: real
  bmi :: real
  cyp2c19_genotype :: "string \<times> string"
  cyp3a4_genotype :: "string \<times> string"
  cyp2c19_activity_score :: real
  cyp3a4_activity_score :: real
  combined_activity_score :: real
  metabolizer_status :: MetabolizerStatus
  phys_params :: PhysiologicalParameters

text \<open>
  The body of the loop of \<^verbatim>\<open>PopulationGenerator.generate\<close> for the index \<open>i\<close>.
  \<^verbatim>\<open>np.random.lognormal(0, 0.3)\<close> is \<open>exp (0 + 0.3 * z)\<close>. When the product of the two
  gene scores is negative, \<^verbatim>\<open>np.sqrt\<close> gives nan and every later float of the individual
  is nan: the model ends there with \<^const>\<open>NonFinite\<close>.
\<close>

definition generate_individual ::
  "PopulationGenerator \<Rightarrow> allele_freq_data \<Rightarrow> activity_score_data \<Rightarrow> nat \<Rightarrow> variates
     \<Rightarrow> failure + IndividualCharacteristics" where
  "generate_individual gen freq_data score_data i v =
     (case sample_ethnicity gen (u_ethnicity v) of
        Inl e \<Rightarrow> Inl e
      | Inr eth \<Rightarrow>
     (let gnd = (if u_gender v < gender_ratio gen then ''M'' else ''F'') in
      case np_random_randint (fst (age_range gen)) (snd (age_range gen) + 1) (r_age v) of
        Inl e \<Rightarrow> Inl e
      | Inr a \<Rightarrow>
     (case sample_anthropometrics gen gnd a (z_weight v) (z_height v) of
        Inl e \<Rightarrow> Inl e
      | Inr (w, h, b) \<Rightarrow>
     (case sample_genotype freq_data ''CYP2C19'' eth (u_cyp2c19_1 v) (u_cyp2c19_2 v) of
        Inl e \<Rightarrow> Inl e
      | Inr g2c19 \<Rightarrow>
     (case sample_genotype freq_data ''CYP3A4'' eth (u_cyp3a4_1 v) (u_cyp3a4_2 v) of
        Inl e \<Rightarrow> Inl e
      | Inr g3a4 \<Rightarrow>
     (let cyp2c19_as = calculate_activity_score score_data ''CYP2C19'' g2c19;
          cyp3a4_as = calculate_activity_score score_data ''CYP3A4'' g3a4
      in case np_sqrt (cyp2c19_as * cyp3a4_as) of
           Inl e \<Rightarrow> Inl e
         | Inr combined_as \<Rightarrow>
             Inr \<lparr> subject_id = int i + 1, age = a, gender = gnd, ethnicity = eth,
                    weight = w, height = h, bmi = b,
                    cyp2c19_genotype = g2c19, cyp3a4_genotype = g3a4,
                    cyp2c19_activity_score = cyp2c19_as,
                    cyp3a4_activity_score = cyp3a4_as,
                    combined_activity_score = combined_as,
                    metabolizer_status = classify_metabolizer combined_as,
                    phys_params =
                      generate_physiological_params (base_cl_int gen) w a gnd combined_as
                        (exp (0 + 0.3 * z_variability v)) \<rparr>))))))"

text \<open>
  \<^verbatim>\<open>PopulationGenerator.generate\<close>: the loop over \<^verbatim>\<open>range(self.n_subjects)\<close>, from index
  \<open>i\<close> with \<open>k\<close> rounds left; \<open>rng i\<close> are the variates of round \<open>i\<close>. An exception ends
  the loop.
\<close>

fun generate_loop ::
  "PopulationGenerator \<Rightarrow> allele_freq_data \<Rightarrow> activity_score_data \<Rightarrow> (nat \<Rightarrow> variates)
     \<Rightarrow> nat \<Rightarrow> nat \<Rightarrow> failure + IndividualCharacteristics list" where
  "generate_loop gen freq_data score_data rng i 0 = Inr []"
| "generate_loop gen freq_data score_data rng i (Suc k) =
     (case generate_individual gen freq_data score_data i (rng i) of
        Inl e \<Rightarrow> Inl e
      | Inr ind \<Rightarrow>
          (case generate_loop gen freq_data score_data rng (Suc i) k of
             Inl e \<Rightarrow> Inl e
           | Inr rest \<Rightarrow> Inr (ind # rest)))"

definition generate ::
  "PopulationGenerator \<Rightarrow> allele_freq_data \<Rightarrow> activity_score_data \<Rightarrow> (nat \<Rightarrow> variates)
     \<Rightarrow> failure + IndividualCharacteristics list" where
  "generate gen freq_data score_data rng =
     generate_loop gen freq_data score_data rng 0 (nat (n_subjects gen))"

section \<open>app.py: normalising the ethnicity percentages\<close>

text \<open>
  The first lines of the callback \<^verbatim>\<open>generate_population\<close> (the same lines are in
  \<^verbatim>\<open>api_generate_population\<close> of flask\_app.py): the dict \<^verbatim>\<open>ethnicity_dist\<close> passed to the
  generator.
\<close>

definition ethnicity_dist :: "real \<Rightarrow> real \<Rightarrow> real \<Rightarrow> (Ethnicity \<times> real) list" where
  "ethnicity_dist eth_asian eth_european eth_african =
     (let total_eth = eth_asian + eth_european + eth_african;
          total_eth = (if total_eth = 0 then 100 else total_eth)
      in [(EAST_ASIAN, eth_asian / total_eth),
          (EUROPEAN, eth_european / total_eth),
          (AFRICAN, eth_african / total_eth)])"

section \<open>pbpk\_model.py: the ODE system and its initial state\<close>




section \<open>NumPy and SciPy functions used by pbpk\_model.py\<close>











definition np_percentile :: "real list \<Rightarrow> real \<Rightarrow> failure + real" where
  "np_percentile a q =
     (if q < 0 \<or> 100 < q then Inl ValueError
      else if a = [] then Inl NonFinite
      else
        (let sorted_a = sort a;
             n = length a;
             virtual_index = real (n - 1) * (q / 100);
             previous_index = nat \<lfloor>virtual_index\<rfloor>;
             next_index = min (previous_index + 1) (n - 1);
             gamma = virtual_index - real previous_index
         in Inr (sorted_a ! previous_index
                  + (sorted_a ! next_index - sorted_a ! previous_index) * gamma)))"



section \<open>pbpk\_model.py: PK metrics\<close>




section \<open>pbpk\_model.py: solve\<close>




section \<open>pbpk\_model.py: run\_population\_simulation\<close>





section \<open>engine.py: calculate\_safety\_margin\<close>

text \<open>
  The returned dict. The ratio is a division by a NumPy float: for a zero 95th percentile
  it is inf or nan (with a RuntimeWarning), which is \<open>None\<close> here.
\<close>

record safety_margin =
  toxic_threshold :: real
  n_total :: nat
  n_exceeding_threshold :: nat
  percentage_exceeding :: real
  percentage_safe :: real
  cmax_max :: real
  cmax_95th_percentile :: real
  safety_ratio :: "real option"

text \<open>
  \<^verbatim>\<open>calculate_safety_margin\<close>. On an empty array \<^verbatim>\<open>np.max\<close> raises \<^verbatim>\<open>ValueError\<close> (the
  two percentages before it are nan, without an exception).
\<close>

definition calculate_safety_margin :: "real list \<Rightarrow> real \<Rightarrow> failure + safety_margin" where
  "calculate_safety_margin cmax_dist threshold =
     (let total = length cmax_dist;
          exceeding = length (filter (\<lambda>c. c > threshold) cmax_dist)
      in if cmax_dist = [] then Inl ValueError
         else
           (case np_percentile cmax_dist 95 of
              Inl e \<Rightarrow> Inl e
            | Inr p95 \<Rightarrow>
                Inr \<lparr> toxic_threshold = threshold,
                       n_total = total,
                       n_exceeding_threshold = exceeding,
                       percentage_exceeding = (real exceeding / real total) * 100,
                       percentage_safe = ((real total - real exceeding) / real total) * 100,
                       cmax_max = Max (set cmax_dist),
                       cmax_95th_percentile = p95,
                       safety_ratio = (if p95 = 0 then None else Some (threshold / p95)) \<rparr>))"

section \<open>An integrator for the examples\<close>


section \<open>Default parameters and example data\<close>

text \<open>The default field values of the three dataclasses of pbpk\_model.py.\<close>

definition DrugParameters_default :: DrugParameters where
  "DrugParameters_default =
     \<lparr> drug_name = ''Generic Drug'', log_p = 2.0, f_u = 0.1, v_d = 1.0, k_a = 1.0,
       drug_f = 0.8, mw = 300.0 \<rparr>"



text \<open>
  The data files are not part of the sources. The examples use a small table of their
  own: East Asian frequencies for the two genes (no table for the other ethnicities, so
  that they fall back to it), and activity scores in which CYP3A4 has no entry for the
  allele *22.
\<close>

definition example_freq_data :: allele_freq_data where
  "example_freq_data =
     [''East Asian'' \<mapsto>
        [''CYP2C19'' \<mapsto> [(''*1'', 0.6), (''*2'', 0.3), (''*3'', 0.1)],
         ''CYP3A4'' \<mapsto> [(''*1'', 0.9), (''*22'', 0.1)]]]"

definition example_score_data :: activity_score_data where
  "example_score_data =
     [''CYP2C19'' \<mapsto> [''*1'' \<mapsto> 1.0, ''*2'' \<mapsto> 0.0, ''*3'' \<mapsto> 0.0],
      ''CYP3A4'' \<mapsto> [''*1'' \<mapsto> 1.0]]"

text \<open>The generator with the default arguments of its constructor, for one subject.\<close>

definition example_generator :: PopulationGenerator where
  "example_generator = PopulationGenerator_init 1 None (18, 65) 0.5 70.0 15.0 10.0"

definition example_variates :: variates where
  "example_variates =
     \<lparr> u_ethnicity = 0.5, u_gender = 0.3, r_age = 7, z_weight = 0, z_height = 0,
       u_cyp2c19_1 = 0.7, u_cyp2c19_2 = 0.2, u_cyp3a4_1 = 0.95, u_cyp3a4_2 = 0.5,
       z_variability = 0 \<rparr>"

section \<open>The half-life, as the code computes it and as the specification words it\<close>




section \<open>Theorems\<close>

subsection \<open>Metabolizer classification\<close>

text \<open>
  C4. Metabolizer classification is a function of the combined activity score alone, with
  the boundaries 0.25, 1.0 and 2.0 each belonging to the lower class: the result is Poor
  exactly for scores up to 0.25, Intermediate exactly for scores above 0.25 and up to 1.0
  (so 1.0 itself is Intermediate), Normal exactly for scores above 1.0 and up to 2.0, and
  Ultra-rapid exactly for scores above 2.0.
\<close>

theorem classify_metabolizer_boundaries:
  "(classify_metabolizer s = POOR) = (s \<le> 0.25) \<and>
   (classify_metabolizer s = INTERMEDIATE) = (0.25 < s \<and> s \<le> 1.0) \<and>
   (classify_metabolizer s = NORMAL) = (1.0 < s \<and> s \<le> 2.0) \<and>
   (classify_metabolizer s = ULTRA_RAPID) = (2.0 < s) \<and>
   classify_metabolizer 0.25 = POOR \<and>
   classify_metabolizer 1.0 = INTERMEDIATE \<and>
   classify_metabolizer 2.0 = NORMAL"
  by (simp add: classify_metabolizer_def)

subsection \<open>Loading the data tables\<close>

text \<open>
  C1, as the claim states it, fails: with both data files missing the import of the
  module does not fail. The handler around the two loads catches the error, and the
  lookups then answer from their fallbacks.
\<close>

theorem missing_data_file_import_succeeds:
  "module_import \<lparr> allele_frequencies_json = None, activity_scores_json = None \<rparr>
     = Inr \<lparr> ALLELE_FREQ_DATA = Map.empty, ACTIVITY_SCORE_DATA = Map.empty,
             warning_printed = True, loader_calls = [''load_allele_frequencies''] \<rparr> \<and>
   get_allele_frequencies Map.empty EUROPEAN ''CYP2C19'' = [(''*1'', 1)] \<and>
   get_activity_score Map.empty ''CYP2C19'' ''*2'' = 1"
  by (simp add: module_import_def load_allele_frequencies_def get_allele_frequencies_def
      get_activity_score_def)

text \<open>
  C1, amended. A loader raises FileNotFoundError when its file is missing. When either
  file is missing the import of the module still succeeds: the handler prints the warning
  and leaves both tables empty, so that every later lookup answers with its default (the
  single allele *1 with frequency 1, the activity score 1). No loader is called twice, and
  the warning is printed exactly when a file is missing.
\<close>

theorem missing_data_file_is_caught:
  "(allele_frequencies_json dir = None \<longrightarrow> load_allele_frequencies dir = Inl FileNotFoundError) \<and>
   (activity_scores_json dir = None \<longrightarrow> load_activity_scores dir = Inl FileNotFoundError) \<and>
   (allele_frequencies_json dir = None \<or> activity_scores_json dir = None \<longrightarrow>
      (\<exists>st. module_import dir = Inr st \<and>
            ALLELE_FREQ_DATA st = Map.empty \<and> ACTIVITY_SCORE_DATA st = Map.empty \<and>
            warning_printed st \<and>
            (\<forall>eth gene. get_allele_frequencies (ALLELE_FREQ_DATA st) eth gene = [(''*1'', 1)]) \<and>
            (\<forall>gene allele. get_activity_score (ACTIVITY_SCORE_DATA st) gene allele = 1))) \<and>
   (\<forall>st. module_import dir = Inr st \<longrightarrow>
      distinct (loader_calls st) \<and>
      (warning_printed st = (allele_frequencies_json dir = None \<or> activity_scores_json dir = None)))"
  by (auto simp add: module_import_def load_allele_frequencies_def load_activity_scores_def
      get_allele_frequencies_def get_activity_score_def split: option.splits)

theorem missing_data_file_is_caught_witness:
  "load_activity_scores \<lparr> allele_frequencies_json = Some None, activity_scores_json = None \<rparr>
     = Inl FileNotFoundError \<and>
   (\<exists>st. module_import \<lparr> allele_frequencies_json = Some None, activity_scores_json = None \<rparr> = Inr st \<and>
         warning_printed st \<and>
         loader_calls st = [''load_allele_frequencies'', ''load_activity_scores''] \<and>
         get_activity_score (ACTIVITY_SCORE_DATA st) ''CYP3A4'' ''*22'' = 1)"
  using missing_data_file_is_caught
    [of "\<lparr> allele_frequencies_json = Some None, activity_scores_json = None \<rparr>"]
  by (auto simp add: module_import_def load_allele_frequencies_def load_activity_scores_def)

subsection \<open>Ethnicity percentages that sum to zero\<close>

text \<open>
  C3, as the claim states it, fails: for the percentages 0, 0, 0 the proportions passed to
  the generator are 0, 0, 0, which is neither an even split nor a distribution that sums
  to one, and sampling an ethnicity from it raises ValueError.
\<close>

theorem zero_sum_proportions_not_even_split:
  "ethnicity_dist 0 0 0 = [(EAST_ASIAN, 0), (EUROPEAN, 0), (AFRICAN, 0)] \<and>
   ethnicity_dist 0 0 0 \<noteq> [(EAST_ASIAN, 1 / 3), (EUROPEAN, 1 / 3), (AFRICAN, 1 / 3)] \<and>
   sum_list (map snd (ethnicity_dist 0 0 0)) \<noteq> 1 \<and>
   sample_ethnicity
     (PopulationGenerator_init 100 (Some (ethnicity_dist 0 0 0)) (18, 65) 0.5 70 15 10) 0.5
     = Inl ValueError"
  by (simp add: ethnicity_dist_def sample_ethnicity_def PopulationGenerator_init_def
      np_random_choice_def)

text \<open>
  C3, amended. When the percentages sum to zero the divisor is 100 instead of the sum, so
  that nothing is divided by zero and each proportion is its percentage divided by 100.
  When the sum is not zero each proportion is its percentage divided by the sum, and the
  proportions sum to one.
\<close>

theorem zero_sum_proportions_divided_by_100:
  "(a + b + c = 0 \<longrightarrow>
      ethnicity_dist a b c = [(EAST_ASIAN, a / 100), (EUROPEAN, b / 100), (AFRICAN, c / 100)]) \<and>
   (a + b + c \<noteq> 0 \<longrightarrow>
      ethnicity_dist a b c
        = [(EAST_ASIAN, a / (a + b + c)), (EUROPEAN, b / (a + b + c)), (AFRICAN, c / (a + b + c))] \<and>
      sum_list (map snd (ethnicity_dist a b c)) = 1)"
  by (simp add: ethnicity_dist_def Let_def add_divide_distrib [symmetric])

theorem zero_sum_proportions_divided_by_100_witness:
  "(0::real) + 0 + 0 = 0 \<and>
   ethnicity_dist 0 0 0 = [(EAST_ASIAN, 0 / 100), (EUROPEAN, 0 / 100), (AFRICAN, 0 / 100)] \<and>
   (60::real) + 30 + 30 \<noteq> 0 \<and>
   ethnicity_dist 60 30 30 = [(EAST_ASIAN, 1 / 2), (EUROPEAN, 1 / 4), (AFRICAN, 1 / 4)] \<and>
   sum_list (map snd (ethnicity_dist 60 30 30)) = 1"
  using zero_sum_proportions_divided_by_100 [of 0 0 0]
    zero_sum_proportions_divided_by_100 [of 60 30 30]
  by simp

subsection \<open>The safety margin\<close>

lemma np_percentile_Inr:
  "0 \<le> q \<Longrightarrow> q \<le> 100 \<Longrightarrow> a \<noteq> [] \<Longrightarrow> \<exists>v. np_percentile a q = Inr v"
  by (simp add: np_percentile_def Let_def)

text \<open>
  C7. The safety-margin analysis is a function of the Cmax distribution and the
  threshold alone. On a non-empty distribution it returns, and what it returns has the
  total count, the count of the values above the threshold and its percentage of the
  total, the 95th percentile of the distribution (linear interpolation between the two
  nearest ranks, as NumPy's percentile), and as safety ratio the threshold divided by that
  percentile (a float division: for a zero percentile the ratio is not a finite number).
\<close>

theorem safety_margin_fields:
  "(cmax_dist \<noteq> [] \<longrightarrow> (\<exists>r. calculate_safety_margin cmax_dist thr = Inr r)) \<and>
   (\<forall>r. calculate_safety_margin cmax_dist thr = Inr r \<longrightarrow>
      n_total r = length cmax_dist \<and>
      n_exceeding_threshold r = length (filter (\<lambda>c. c > thr) cmax_dist) \<and>
      percentage_exceeding r = real (n_exceeding_threshold r) / real (n_total r) * 100 \<and>
      np_percentile cmax_dist 95 = Inr (cmax_95th_percentile r) \<and>
      (cmax_95th_percentile r \<noteq> 0 \<longrightarrow>
         safety_ratio r = Some (thr / cmax_95th_percentile r)))"
proof (cases "cmax_dist = []")
  case True
  then show ?thesis by (simp add: calculate_safety_margin_def)
next
  case False
  then obtain v where v: "np_percentile cmax_dist 95 = Inr v"
    using np_percentile_Inr [of 95 cmax_dist] by auto
  with False show ?thesis
    by (auto simp add: calculate_safety_margin_def Let_def)
qed

theorem safety_margin_fields_witness:
  "\<exists>r. calculate_safety_margin [10, 50, 30, 20, 40] 45 = Inr r \<and>
       n_total r = 5 \<and> n_exceeding_threshold r = 1 \<and> percentage_exceeding r = 20 \<and>
       cmax_95th_percentile r = 48 \<and> safety_ratio r = Some (45 / 48)"
  using safety_margin_fields [of "[10, 50, 30, 20, 40]" 45]
  by (simp add: calculate_safety_margin_def np_percentile_def Let_def)

subsection \<open>Activity scores\<close>

text \<open>The example individual: the evaluation of the generator on the example data.\<close>

lemma example_ethnicity:
  "sample_ethnicity example_generator (u_ethnicity example_variates) = Inr EUROPEAN"
  by (simp add: sample_ethnicity_def example_generator_def PopulationGenerator_init_def
      default_ethnicity_distribution_def np_random_choice_def example_variates_def)

lemma example_cyp2c19:
  "sample_genotype example_freq_data ''CYP2C19'' EUROPEAN
     (u_cyp2c19_1 example_variates) (u_cyp2c19_2 example_variates) = Inr (''*1'', ''*2'')"
  by (simp add: sample_genotype_def get_allele_frequencies_def example_freq_data_def
      np_random_choice_def example_variates_def)

lemma example_cyp3a4:
  "sample_genotype example_freq_data ''CYP3A4'' EUROPEAN
     (u_cyp3a4_1 example_variates) (u_cyp3a4_2 example_variates) = Inr (''*1'', ''*22'')"
  by (simp add: sample_genotype_def get_allele_frequencies_def example_freq_data_def
      np_random_choice_def example_variates_def)

lemma example_anthropometrics:
  "sample_anthropometrics example_generator ''M'' 25
     (z_weight example_variates) (z_height example_variates)
     = Inr (77, 175, 77 / (175 / 100)\<^sup>2)"
  by (simp add: sample_anthropometrics_def example_generator_def PopulationGenerator_init_def
      np_random_normal_def example_variates_def)

lemma example_scores:
  "calculate_activity_score example_score_data ''CYP2C19'' (''*1'', ''*2'') = 1"
  "calculate_activity_score example_score_data ''CYP3A4'' (''*1'', ''*22'') = 2"
  by (simp_all add: calculate_activity_score_def get_activity_score_def example_score_data_def)

lemma example_individual:
  "generate_individual example_generator example_freq_data example_score_data 0 example_variates
     = Inr \<lparr> subject_id = 1, age = 25, gender = ''M'', ethnicity = EUROPEAN,
             weight = 77, height = 175, bmi = 77 / (175 / 100)\<^sup>2,
             cyp2c19_genotype = (''*1'', ''*2''), cyp3a4_genotype = (''*1'', ''*22''),
             cyp2c19_activity_score = 1, cyp3a4_activity_score = 2,
             combined_activity_score = sqrt 2,
             metabolizer_status = classify_metabolizer (sqrt 2),
             phys_params = generate_physiological_params 10 77 25 ''M'' (sqrt 2) (exp 0) \<rparr>"
proof -
  have a: "np_random_randint (fst (age_range example_generator))
             (snd (age_range example_generator) + 1) (r_age example_variates) = Inr 25"
    by (simp add: np_random_randint_def example_generator_def PopulationGenerator_init_def
        example_variates_def)
  have g: "(if u_gender example_variates < gender_ratio example_generator then ''M'' else ''F'') = ''M''"
    by (simp add: example_generator_def PopulationGenerator_init_def example_variates_def)
  have v: "z_variability example_variates = 0"
    by (simp add: example_variates_def)
  have b: "base_cl_int example_generator = 10"
    by (simp add: example_generator_def PopulationGenerator_init_def)
  show ?thesis
    unfolding generate_individual_def
    by (simp add: example_ethnicity a g v b example_cyp2c19 example_cyp3a4
        example_anthropometrics example_scores np_sqrt_def Let_def del: exp_zero)
qed

lemma generate_individual_Inr:
  assumes "generate_individual gen fd sd i v = Inr ind"
  obtains eth a w h b g2c19 g3a4 where
    "sample_ethnicity gen (u_ethnicity v) = Inr eth"
    "np_random_randint (fst (age_range gen)) (snd (age_range gen) + 1) (r_age v) = Inr a"
    "sample_anthropometrics gen (if u_gender v < gender_ratio gen then ''M'' else ''F'') a
       (z_weight v) (z_height v) = Inr (w, h, b)"
    "sample_genotype fd ''CYP2C19'' eth (u_cyp2c19_1 v) (u_cyp2c19_2 v) = Inr g2c19"
    "sample_genotype fd ''CYP3A4'' eth (u_cyp3a4_1 v) (u_cyp3a4_2 v) = Inr g3a4"
    "0 \<le> calculate_activity_score sd ''CYP2C19'' g2c19
           * calculate_activity_score sd ''CYP3A4'' g3a4"
    "ethnicity ind = eth" "age ind = a" "weight ind = w" "height ind = h" "bmi ind = b"
    "cyp2c19_genotype ind = g2c19" "cyp3a4_genotype ind = g3a4"
    "cyp2c19_activity_score ind = calculate_activity_score sd ''CYP2C19'' g2c19"
    "cyp3a4_activity_score ind = calculate_activity_score sd ''CYP3A4'' g3a4"
    "combined_activity_score ind
       = sqrt (calculate_activity_score sd ''CYP2C19'' g2c19
               * calculate_activity_score sd ''CYP3A4'' g3a4)"
    "metabolizer_status ind = classify_metabolizer (combined_activity_score ind)"
    "subject_id ind = int i + 1"
    "phys_params ind
       = generate_physiological_params (base_cl_int gen) w a
           (if u_gender v < gender_ratio gen then ''M'' else ''F'')
           (combined_activity_score ind) (exp (0 + 0.3 * z_variability v))"
  using assms unfolding generate_individual_def Let_def np_sqrt_def
  by (simp split: sum.splits prod.splits if_splits) fastforce+

text \<open>
  C8. The activity score of a gene is the sum of the scores looked up for the two alleles
  of the genotype; a gene that is not in the activity-score table, or an allele that is
  not in the table of its gene, counts 1.0, and an allele in the table counts its entry.
  In every generated individual the two gene scores are these sums over its genotypes and
  the combined score is the square root of their product (the geometric mean).
\<close>

theorem activity_score_sum_and_geometric_mean:
  "calculate_activity_score sd gene (a1, a2)
     = get_activity_score sd gene a1 + get_activity_score sd gene a2 \<and>
   (sd gene = None \<longrightarrow> get_activity_score sd gene al = 1) \<and>
   (\<forall>m. sd gene = Some m \<longrightarrow> m al = None \<longrightarrow> get_activity_score sd gene al = 1) \<and>
   (\<forall>m s. sd gene = Some m \<longrightarrow> m al = Some s \<longrightarrow> get_activity_score sd gene al = s) \<and>
   (\<forall>ind. generate_individual gen fd sd i v = Inr ind \<longrightarrow>
      cyp2c19_activity_score ind
        = get_activity_score sd ''CYP2C19'' (fst (cyp2c19_genotype ind))
          + get_activity_score sd ''CYP2C19'' (snd (cyp2c19_genotype ind)) \<and>
      cyp3a4_activity_score ind
        = get_activity_score sd ''CYP3A4'' (fst (cyp3a4_genotype ind))
          + get_activity_score sd ''CYP3A4'' (snd (cyp3a4_genotype ind)) \<and>
      combined_activity_score ind
        = sqrt (cyp2c19_activity_score ind * cyp3a4_activity_score ind) \<and>
      0 \<le> cyp2c19_activity_score ind * cyp3a4_activity_score ind)"
proof -
  have lookups:
    "calculate_activity_score sd gene (a1, a2)
       = get_activity_score sd gene a1 + get_activity_score sd gene a2"
    "sd gene = None \<longrightarrow> get_activity_score sd gene al = 1"
    "\<forall>m. sd gene = Some m \<longrightarrow> m al = None \<longrightarrow> get_activity_score sd gene al = 1"
    "\<forall>m s. sd gene = Some m \<longrightarrow> m al = Some s \<longrightarrow> get_activity_score sd gene al = s"
    by (simp_all add: calculate_activity_score_def get_activity_score_def)
  have individual:
    "cyp2c19_activity_score ind
        = get_activity_score sd ''CYP2C19'' (fst (cyp2c19_genotype ind))
          + get_activity_score sd ''CYP2C19'' (snd (cyp2c19_genotype ind)) \<and>
      cyp3a4_activity_score ind
        = get_activity_score sd ''CYP3A4'' (fst (cyp3a4_genotype ind))
          + get_activity_score sd ''CYP3A4'' (snd (cyp3a4_genotype ind)) \<and>
      combined_activity_score ind
        = sqrt (cyp2c19_activity_score ind * cyp3a4_activity_score ind) \<and>
      0 \<le> cyp2c19_activity_score ind * cyp3a4_activity_score ind"
    if "generate_individual gen fd sd i v = Inr ind" for ind
    using that by (rule generate_individual_Inr) (simp add: calculate_activity_score_def)
  from lookups individual show ?thesis by blast
qed

theorem activity_score_sum_and_geometric_mean_witness:
  "example_score_data ''CYP1A2'' = None \<and>
   get_activity_score example_score_data ''CYP1A2'' ''*1'' = 1 \<and>
   get_activity_score example_score_data ''CYP3A4'' ''*22'' = 1 \<and>
   get_activity_score example_score_data ''CYP2C19'' ''*2'' = 0 \<and>
   (\<exists>ind. generate_individual example_generator example_freq_data example_score_data 0
            example_variates = Inr ind \<and>
          cyp2c19_genotype ind = (''*1'', ''*2'') \<and> cyp2c19_activity_score ind = 1 + 0 \<and>
          cyp3a4_genotype ind = (''*1'', ''*22'') \<and> cyp3a4_activity_score ind = 1 + 1 \<and>
          combined_activity_score ind = sqrt (1 * 2))"
  using activity_score_sum_and_geometric_mean
    [of example_score_data "''CYP3A4''" "''*1''" "''*22''" "''*22''" example_generator
        example_freq_data 0 example_variates]
    activity_score_sum_and_geometric_mean
    [of example_score_data "''CYP1A2''" "''*1''" "''*1''" "''*1''" example_generator
        example_freq_data 0 example_variates]
    activity_score_sum_and_geometric_mean
    [of example_score_data "''CYP2C19''" "''*1''" "''*1''" "''*2''" example_generator
        example_freq_data 0 example_variates]
  by (simp add: example_individual) (simp add: example_score_data_def)

subsection \<open>The route of administration\<close>



subsection \<open>The invariants of a generated individual\<close>

text \<open>What the sampling functions return.\<close>

lemma np_random_choice_member:
  "np_random_choice a p u = Inr x \<Longrightarrow> x \<in> set a"
  by (auto simp add: np_random_choice_def Let_def split: if_splits)

lemma sample_genotype_sorted_member:
  assumes "sample_genotype fd gene eth u1 u2 = Inr g"
  shows "fst g \<le> snd g"
    and "fst g \<in> fst ` set (get_allele_frequencies fd eth gene)"
    and "snd g \<in> fst ` set (get_allele_frequencies fd eth gene)"
proof -
  let ?tbl = "get_allele_frequencies fd eth gene"
  from assms obtain x y where
    x: "np_random_choice (map fst ?tbl) (map snd ?tbl) u1 = Inr x" and
    y: "np_random_choice (map fst ?tbl) (map snd ?tbl) u2 = Inr y" and
    g: "g = (if y < x then (y, x) else (x, y))"
    by (auto simp add: sample_genotype_def Let_def split: sum.splits)
  from g show "fst g \<le> snd g" by auto
  from np_random_choice_member [OF x] np_random_choice_member [OF y] g
  show "fst g \<in> fst ` set ?tbl" and "snd g \<in> fst ` set ?tbl"
    by (auto split: if_splits)
qed

lemma sample_genotype_unordered:
  "sample_genotype fd gene eth u1 u2 = sample_genotype fd gene eth u2 u1"
proof -
  let ?tbl = "get_allele_frequencies fd eth gene"
  let ?c = "\<lambda>u. np_random_choice (map fst ?tbl) (map snd ?tbl) u"
  show ?thesis
  proof (cases "?c u1")
    case l1: (Inl e1)
    show ?thesis
    proof (cases "?c u2")
      case l2: (Inl e2)
      have "e1 = e2"
        using l1 l2 by (auto simp add: np_random_choice_def Let_def split: if_splits)
      with l1 l2 show ?thesis by (simp add: sample_genotype_def Let_def)
    next
      case r2: (Inr y)
      with l1 show ?thesis by (simp add: sample_genotype_def Let_def)
    qed
  next
    case r1: (Inr x)
    show ?thesis
    proof (cases "?c u2")
      case (Inl e2)
      with r1 show ?thesis by (simp add: sample_genotype_def Let_def)
    next
      case (Inr y)
      with r1 show ?thesis by (auto simp add: sample_genotype_def Let_def)
    qed
  qed
qed

lemma sample_anthropometrics_clamped:
  assumes "sample_anthropometrics gen gnd a zw zh = Inr (w, h, b)"
  shows "40 \<le> w \<and> w \<le> 150 \<and> 140 \<le> h \<and> h \<le> 200"
  using assms
  by (auto simp add: sample_anthropometrics_def Let_def split: sum.splits)

lemma generate_loop_member:
  "generate_loop gen fd sd rng i k = Inr pop \<Longrightarrow> ind \<in> set pop \<Longrightarrow>
   \<exists>j. generate_individual gen fd sd j (rng j) = Inr ind"
proof (induction k arbitrary: i pop)
  case 0
  then show ?case by simp
next
  case (Suc k)
  then show ?case by (auto split: sum.splits)
qed

lemma generate_loop_length:
  "generate_loop gen fd sd rng i k = Inr pop \<Longrightarrow> length pop = k"
  by (induction k arbitrary: i pop) (auto split: sum.splits)

lemma get_allele_frequencies_present:
  "fd (ethnicity_value eth) = Some genes \<Longrightarrow> genes gene = Some tbl \<Longrightarrow>
   get_allele_frequencies fd eth gene = tbl"
  by (simp add: get_allele_frequencies_def)

text \<open>
  C9. Every individual that generate returns has two genotypes that are each a sorted pair
  (first allele at most the second) of allele labels of the frequency table that
  get\_allele\_frequencies gives for the individual's ethnicity and the gene, a weight in
  [40, 150] and a height in [140, 200]; generate returns as many individuals as were
  asked for. The table is the one stored for that ethnicity and gene when there is one.
  The genotype does not depend on the order in which its two alleles were drawn.
\<close>

theorem generated_individual_invariants:
  "(\<forall>pop. generate gen fd sd rng = Inr pop \<longrightarrow>
      length pop = nat (n_subjects gen) \<and>
      (\<forall>ind \<in> set pop.
         fst (cyp2c19_genotype ind) \<le> snd (cyp2c19_genotype ind) \<and>
         fst (cyp2c19_genotype ind) \<in> fst ` set (get_allele_frequencies fd (ethnicity ind) ''CYP2C19'') \<and>
         snd (cyp2c19_genotype ind) \<in> fst ` set (get_allele_frequencies fd (ethnicity ind) ''CYP2C19'') \<and>
         fst (cyp3a4_genotype ind) \<le> snd (cyp3a4_genotype ind) \<and>
         fst (cyp3a4_genotype ind) \<in> fst ` set (get_allele_frequencies fd (ethnicity ind) ''CYP3A4'') \<and>
         snd (cyp3a4_genotype ind) \<in> fst ` set (get_allele_frequencies fd (ethnicity ind) ''CYP3A4'') \<and>
         40 \<le> weight ind \<and> weight ind \<le> 150 \<and>
         140 \<le> height ind \<and> height ind \<le> 200)) \<and>
   (\<forall>genes gene tbl. fd (ethnicity_value eth) = Some genes \<longrightarrow> genes gene = Some tbl \<longrightarrow>
      get_allele_frequencies fd eth gene = tbl) \<and>
   sample_genotype fd gene' eth u1 u2 = sample_genotype fd gene' eth u2 u1"
proof -
  have inv:
    "fst (cyp2c19_genotype ind) \<le> snd (cyp2c19_genotype ind) \<and>
     fst (cyp2c19_genotype ind) \<in> fst ` set (get_allele_frequencies fd (ethnicity ind) ''CYP2C19'') \<and>
     snd (cyp2c19_genotype ind) \<in> fst ` set (get_allele_frequencies fd (ethnicity ind) ''CYP2C19'') \<and>
     fst (cyp3a4_genotype ind) \<le> snd (cyp3a4_genotype ind) \<and>
     fst (cyp3a4_genotype ind) \<in> fst ` set (get_allele_frequencies fd (ethnicity ind) ''CYP3A4'') \<and>
     snd (cyp3a4_genotype ind) \<in> fst ` set (get_allele_frequencies fd (ethnicity ind) ''CYP3A4'') \<and>
     40 \<le> weight ind \<and> weight ind \<le> 150 \<and>
     140 \<le> height ind \<and> height ind \<le> 200"
    if "generate_individual gen fd sd j v = Inr ind" for j v ind
    using that
  proof (rule generate_individual_Inr)
    fix eth' a w h b g2c19 g3a4
    assume s: "sample_anthropometrics gen (if u_gender v < gender_ratio gen then ''M'' else ''F'') a
                 (z_weight v) (z_height v) = Inr (w, h, b)"
      and g1: "sample_genotype fd ''CYP2C19'' eth' (u_cyp2c19_1 v) (u_cyp2c19_2 v) = Inr g2c19"
      and g2: "sample_genotype fd ''CYP3A4'' eth' (u_cyp3a4_1 v) (u_cyp3a4_2 v) = Inr g3a4"
      and f: "ethnicity ind = eth'" "weight ind = w" "height ind = h"
        "cyp2c19_genotype ind = g2c19" "cyp3a4_genotype ind = g3a4"
    from sample_anthropometrics_clamped [OF s] sample_genotype_sorted_member [OF g1]
      sample_genotype_sorted_member [OF g2] f
    show ?thesis by simp
  qed
  have pop: "length pop = nat (n_subjects gen) \<and> (\<forall>ind \<in> set pop.
         fst (cyp2c19_genotype ind) \<le> snd (cyp2c19_genotype ind) \<and>
         fst (cyp2c19_genotype ind) \<in> fst ` set (get_allele_frequencies fd (ethnicity ind) ''CYP2C19'') \<and>
         snd (cyp2c19_genotype ind) \<in> fst ` set (get_allele_frequencies fd (ethnicity ind) ''CYP2C19'') \<and>
         fst (cyp3a4_genotype ind) \<le> snd (cyp3a4_genotype ind) \<and>
         fst (cyp3a4_genotype ind) \<in> fst ` set (get_allele_frequencies fd (ethnicity ind) ''CYP3A4'') \<and>
         snd (cyp3a4_genotype ind) \<in> fst ` set (get_allele_frequencies fd (ethnicity ind) ''CYP3A4'') \<and>
         40 \<le> weight ind \<and> weight ind \<le> 150 \<and>
         140 \<le> height ind \<and> height ind \<le> 200)"
    if "generate gen fd sd rng = Inr pop" for pop
  proof (rule conjI, goal_cases)
    case 1
    from that show ?case
      by (simp add: generate_def generate_loop_length)
  next
    case 2
    show ?case
    proof (rule ballI)
    fix ind assume "ind \<in> set pop"
    with that obtain j where "generate_individual gen fd sd j (rng j) = Inr ind"
      unfolding generate_def by (blast dest: generate_loop_member)
    then show "fst (cyp2c19_genotype ind) \<le> snd (cyp2c19_genotype ind) \<and>
     fst (cyp2c19_genotype ind) \<in> fst ` set (get_allele_frequencies fd (ethnicity ind) ''CYP2C19'') \<and>
     snd (cyp2c19_genotype ind) \<in> fst ` set (get_allele_frequencies fd (ethnicity ind) ''CYP2C19'') \<and>
     fst (cyp3a4_genotype ind) \<le> snd (cyp3a4_genotype ind) \<and>
     fst (cyp3a4_genotype ind) \<in> fst ` set (get_allele_frequencies fd (ethnicity ind) ''CYP3A4'') \<and>
     snd (cyp3a4_genotype ind) \<in> fst ` set (get_allele_frequencies fd (ethnicity ind) ''CYP3A4'') \<and>
     40 \<le> weight ind \<and> weight ind \<le> 150 \<and>
     140 \<le> height ind \<and> height ind \<le> 200"
      by (rule inv)
    qed
  qed
  from pop get_allele_frequencies_present sample_genotype_unordered show ?thesis
    by blast
qed


theorem generated_individual_invariants_witness:
  "\<exists>ind. generate example_generator example_freq_data example_score_data (\<lambda>i. example_variates)
           = Inr [ind] \<and>
         ethnicity ind = EUROPEAN \<and>
         cyp2c19_genotype ind = (''*1'', ''*2'') \<and> ''*1'' \<le> ''*2'' \<and>
         ''*2'' \<in> fst ` set (get_allele_frequencies example_freq_data EUROPEAN ''CYP2C19'') \<and>
         cyp3a4_genotype ind = (''*1'', ''*22'') \<and> ''*1'' \<le> ''*22'' \<and>
         ''*22'' \<in> fst ` set (get_allele_frequencies example_freq_data EUROPEAN ''CYP3A4'') \<and>
         weight ind = 77 \<and> height ind = 175"
proof -
  have n: "nat (n_subjects example_generator) = Suc 0"
    by (simp add: example_generator_def PopulationGenerator_init_def)
  have g: "generate example_generator example_freq_data example_score_data (\<lambda>i. example_variates)
        = Inr [\<lparr> subject_id = 1, age = 25, gender = ''M'', ethnicity = EUROPEAN,
             weight = 77, height = 175, bmi = 77 / (175 / 100)\<^sup>2,
             cyp2c19_genotype = (''*1'', ''*2''), cyp3a4_genotype = (''*1'', ''*22''),
             cyp2c19_activity_score = 1, cyp3a4_activity_score = 2,
             combined_activity_score = sqrt 2,
             metabolizer_status = classify_metabolizer (sqrt 2),
             phys_params = generate_physiological_params 10 77 25 ''M'' (sqrt 2) (exp 0) \<rparr>]"
    by (simp add: generate_def n example_individual del: exp_zero)
  show ?thesis
    using generated_individual_invariants
      [of example_generator example_freq_data example_score_data "\<lambda>i. example_variates"
          EUROPEAN "''CYP2C19''" 0 0]
    by (simp add: g del: exp_zero)
qed

subsection \<open>The half-life\<close>




























subsection \<open>The shapes of the population simulation\<close>


















subsection \<open>The activity score in the intrinsic clearance\<close>

text \<open>
  C2. The clearance stored at generation time is the base clearance times the combined
  activity score times the lognormal draw, and the intrinsic clearance that solve passes
  to the ODE is that stored clearance times the same activity score again: the score
  enters as its square. This holds for the two functions on all arguments, and so for
  every generated individual, whose draw is \<open>exp (0.3 * z)\<close> for its normal variate
  \<open>z\<close>.
\<close>

theorem clearance_compounds_activity_score:
  "cl_int (generate_physiological_params base w a g s x) = base * s * x \<and>
   activity_score (generate_physiological_params base w a g s x) = s \<and>
   p_CL_int (solve_params drug (generate_physiological_params base w a g s x))
     = cl_int (generate_physiological_params base w a g s x) * s \<and>
   p_CL_int (solve_params drug (generate_physiological_params base w a g s x))
     = base * s\<^sup>2 * x \<and>
   (\<forall>ind. generate_individual gen fd sd i v = Inr ind \<longrightarrow>
      cl_int (phys_params ind)
        = base_cl_int gen * combined_activity_score ind * exp (0.3 * z_variability v) \<and>
      activity_score (phys_params ind) = combined_activity_score ind \<and>
      p_CL_int (solve_params drug (phys_params ind))
        = cl_int (phys_params ind) * combined_activity_score ind \<and>
      p_CL_int (solve_params drug (phys_params ind))
        = base_cl_int gen * (combined_activity_score ind)\<^sup>2 * exp (0.3 * z_variability v))"
proof -
  have fns:
    "cl_int (generate_physiological_params base w a g s x) = base * s * x"
    "activity_score (generate_physiological_params base w a g s x) = s"
    "p_CL_int (solve_params drug (generate_physiological_params base w a g s x))
       = cl_int (generate_physiological_params base w a g s x) * s"
    "p_CL_int (solve_params drug (generate_physiological_params base w a g s x))
       = base * s\<^sup>2 * x"
    for base w a g s x
    by (simp_all add: generate_physiological_params_def solve_params_def effective_cl_int_def
        Let_def power2_eq_square)
  have individual:
    "cl_int (phys_params ind)
        = base_cl_int gen * combined_activity_score ind * exp (0.3 * z_variability v) \<and>
      activity_score (phys_params ind) = combined_activity_score ind \<and>
      p_CL_int (solve_params drug (phys_params ind))
        = cl_int (phys_params ind) * combined_activity_score ind \<and>
      p_CL_int (solve_params drug (phys_params ind))
        = base_cl_int gen * (combined_activity_score ind)\<^sup>2 * exp (0.3 * z_variability v)"
    if "generate_individual gen fd sd i v = Inr ind" for ind
    using that by (rule generate_individual_Inr) (simp add: fns)
  then have every: "\<forall>ind. generate_individual gen fd sd i v = Inr ind \<longrightarrow>
      cl_int (phys_params ind)
        = base_cl_int gen * combined_activity_score ind * exp (0.3 * z_variability v) \<and>
      activity_score (phys_params ind) = combined_activity_score ind \<and>
      p_CL_int (solve_params drug (phys_params ind))
        = cl_int (phys_params ind) * combined_activity_score ind \<and>
      p_CL_int (solve_params drug (phys_params ind))
        = base_cl_int gen * (combined_activity_score ind)\<^sup>2 * exp (0.3 * z_variability v)"
    by blast
  show ?thesis
    by (intro conjI) (rule fns every)+
qed

theorem clearance_compounds_activity_score_witness:
  "\<exists>ind. generate_individual example_generator example_freq_data example_score_data 0
           example_variates = Inr ind \<and>
         combined_activity_score ind = sqrt 2 \<and>
         cl_int (phys_params ind) = 10 * sqrt 2 * 1 \<and>
         p_CL_int (solve_params DrugParameters_default (phys_params ind)) = 10 * 2 * 1"
proof -
  have b: "base_cl_int example_generator = 10"
    by (simp add: example_generator_def PopulationGenerator_init_def)
  have z: "z_variability example_variates = 0"
    by (simp add: example_variates_def)
  show ?thesis
    using clearance_compounds_activity_score
      [of 10 77 25 "''M''" "sqrt 2" 1 DrugParameters_default example_generator
          example_freq_data example_score_data 0 example_variates]
    by (simp add: example_individual b z)
qed

end
